theory Spec2Isabelle
  imports Main
begin

section \<open>Python strings\<close>

text \<open>
  Seat numbers are Python \<open>str\<close> values. They are modelled as HOL strings whose
  characters are ASCII code points; the string methods below are the ASCII cases of
  \<open>str.isspace\<close>, \<open>str.isalpha\<close>, \<open>str.isdigit\<close>, \<open>str.upper\<close>,
  \<open>str.strip\<close> and \<open>int\<close>. A character outside ASCII is treated as neither
  white space, letter nor digit and is left alone by \<open>py_upper\<close>.
\<close>

definition code_point :: "char \<Rightarrow> nat" where
  "code_point c = of_char c"

definition isspace_chr :: "char \<Rightarrow> bool" where
  "isspace_chr c =
     ((9 \<le> code_point c \<and> code_point c \<le> 13) \<or>
      (28 \<le> code_point c \<and> code_point c \<le> 32))"

definition isupper_AZ :: "char \<Rightarrow> bool" where
  "isupper_AZ c = (65 \<le> code_point c \<and> code_point c \<le> 90)"

definition islower_az :: "char \<Rightarrow> bool" where
  "islower_az c = (97 \<le> code_point c \<and> code_point c \<le> 122)"

definition isalpha_chr :: "char \<Rightarrow> bool" where
  "isalpha_chr c = (isupper_AZ c \<or> islower_az c)"

definition isdigit_chr :: "char \<Rightarrow> bool" where
  "isdigit_chr c = (48 \<le> code_point c \<and> code_point c \<le> 57)"

definition upper_chr :: "char \<Rightarrow> char" where
  "upper_chr c = (if islower_az c then char_of (code_point c - 32) else c)"

definition py_upper :: "string \<Rightarrow> string" where
  "py_upper s = map upper_chr s"

definition py_strip :: "string \<Rightarrow> string" where
  "py_strip s = rev (dropWhile isspace_chr (rev (dropWhile isspace_chr s)))"

text \<open>The strings on which the model is Python: all code points below 128.\<close>

definition is_ascii :: "string \<Rightarrow> bool" where
  "is_ascii s = list_all (\<lambda>c. code_point c < 128) s"

text \<open>\<open>s.isdigit()\<close>: false on the empty string.\<close>

definition py_isdigit :: "string \<Rightarrow> bool" where
  "py_isdigit s = (s \<noteq> [] \<and> list_all isdigit_chr s)"

definition decimal_value :: "string \<Rightarrow> int" where
  "decimal_value ds = foldl (\<lambda>a c. 10 * a + (int (code_point c) - 48)) 0 ds"

text \<open>
  \<open>int(s)\<close> for the strings the validators pass to it, which have gone through
  \<open>isdigit\<close>. \<open>None\<close> is \<open>ValueError\<close>. CPython refuses a decimal string of
  more than \<open>sys.int_max_str_digits\<close> digits (4300 unless configured, 0 switches
  the limit off, older interpreters have none); the limit is the parameter
  \<open>max_str_digits\<close>.
\<close>

definition py_int :: "nat \<Rightarrow> string \<Rightarrow> int option" where
  "py_int max_str_digits s =
     (if \<not> py_isdigit s then None
      else if max_str_digits \<noteq> 0 \<and> max_str_digits < length s then None
      else Some (decimal_value s))"

section \<open>common/utils.py\<close>

text \<open>
  \<open>validate_seat_number_format\<close>. The argument is a \<open>str\<close>, so the
  \<open>isinstance\<close> test always passes; \<open>not seat_number\<close> is the empty string.
\<close>

definition validate_seat_number_format :: "nat \<Rightarrow> string \<Rightarrow> bool" where
  "validate_seat_number_format max_str_digits seat_number =
     (if seat_number = [] then False
      else
        (case py_upper (py_strip seat_number) of
           [] \<Rightarrow> False
         | [c] \<Rightarrow> False
         | c # rest \<Rightarrow>
             if \<not> isalpha_chr c then False
             else if \<not> py_isdigit rest then False
             else if code_point c < 65 \<or> code_point c > 90 then False
             else
               (case py_int max_str_digits rest of
                  None \<Rightarrow> False
                | Some seat_num \<Rightarrow> if seat_num < 1 \<or> seat_num > 99 then False else True)))"

definition normalize_seat_number :: "string \<Rightarrow> string" where
  "normalize_seat_number seat_number =
     (if seat_number = [] then [] else py_upper (py_strip seat_number))"

text \<open>
  \<open>get_seat_row_and_number\<close>: the row letter and the number of a seat, \<open>None\<close>
  for the pair \<open>(None, None)\<close> of an invalid seat number. (\<open>int\<close> cannot raise
  here, after the validation.)
\<close>

definition get_seat_row_and_number :: "nat \<Rightarrow> string \<Rightarrow> (char \<times> int) option" where
  "get_seat_row_and_number max_str_digits seat_number =
     (if \<not> validate_seat_number_format max_str_digits seat_number then None
      else
        (let normalized = normalize_seat_number seat_number
         in case py_int max_str_digits (tl normalized) of
              None \<Rightarrow> None
            | Some number \<Rightarrow> Some (hd normalized, number)))"

text \<open>\<open>is_show_bookable\<close>; \<open>now\<close> is the value of \<open>timezone.now()\<close>.\<close>

definition is_show_bookable :: "int \<Rightarrow> int \<Rightarrow> bool" where
  "is_show_bookable now show_datetime = (show_datetime > now)"

section \<open>movies/models.py\<close>

text \<open>
  A \<open>Show\<close> row: primary key, start time (\<open>date_time\<close>, an instant on the
  integer time line) and capacity (\<open>total_seats\<close>, a \<open>PositiveIntegerField\<close>).
  The fields no booking rule reads (movie, screen name, price, time stamps) are left
  out.
\<close>

record Show =
  show_id :: nat
  date_time :: int
  total_seats :: nat

datatype status = Booked | Cancelled

text \<open>
  A \<open>Booking\<close> object. \<open>pk\<close> is the \<open>id\<close> attribute: \<open>None\<close> until the
  object has been saved. \<open>user\<close> is the owner's primary key and \<open>bshow\<close> the
  \<open>show\<close> attribute, the related \<open>Show\<close> object. The table of bookings is the
  list of its rows; queries that filter on \<open>show=\<close> compare primary keys, and
  string lookups are exact matches.
\<close>

record booking =
  pk :: "nat option"
  user :: nat
  bshow :: Show
  seat_number :: string
  status :: status
  booking_reference :: string

type_synonym bookings = "booking list"

datatype exn = ValidationError | IntegrityError

text \<open>\<open>show.bookings.filter(status='booked')\<close>\<close>

definition booked_of :: "bookings \<Rightarrow> Show \<Rightarrow> bookings" where
  "booked_of rows sh =
     filter (\<lambda>r. show_id (bshow r) = show_id sh \<and> status r = Booked) rows"

definition available_seats :: "bookings \<Rightarrow> Show \<Rightarrow> int" where
  "available_seats rows sh = int (total_seats sh) - int (length (booked_of rows sh))"

definition is_fully_booked :: "bookings \<Rightarrow> Show \<Rightarrow> bool" where
  "is_fully_booked rows sh = (available_seats rows sh \<le> 0)"

definition get_booked_seat_numbers :: "bookings \<Rightarrow> Show \<Rightarrow> string list" where
  "get_booked_seat_numbers rows sh = map seat_number (booked_of rows sh)"

text \<open>
  \<open>Booking.objects.filter(show=..., seat_number=..., status='booked')\<close>, the query
  of \<open>Booking.clean\<close>, \<open>create_booking\<close> and the serializer.
\<close>

definition booked_seat_rows :: "bookings \<Rightarrow> Show \<Rightarrow> string \<Rightarrow> bookings" where
  "booked_seat_rows rows sh seat =
     filter (\<lambda>r. show_id (bshow r) = show_id sh \<and> seat_number r = seat \<and> status r = Booked) rows"

text \<open>\<open>.exclude(id=self.id)\<close>: every row of the table has a primary key.\<close>

definition exclude_id :: "nat option \<Rightarrow> bookings \<Rightarrow> bookings" where
  "exclude_id i rows = filter (\<lambda>r. pk r \<noteq> i) rows"

text \<open>\<open>Booking.clean\<close>\<close>

definition clean :: "bookings \<Rightarrow> booking \<Rightarrow> exn + unit" where
  "clean rows self =
     (if seat_number self \<noteq> [] \<and>
         exclude_id (pk self) (booked_seat_rows rows (bshow self) (seat_number self)) \<noteq> []
      then Inl ValidationError
      else if seat_number self \<noteq> [] \<and> py_strip (seat_number self) = []
      then Inl ValidationError
      else Inr ())"

text \<open>
  The framework's \<open>Model.full_clean\<close> runs three checks and raises
  \<open>ValidationError\<close> when any of them fails.

  \<open>clean_fields\<close>: \<open>seat_number\<close> is a \<open>CharField(max_length=10)\<close> that may not be
  blank, \<open>booking_reference\<close> a \<open>CharField(max_length=20, blank=True)\<close>; the status
  is one of the two choices and the owner and the show exist.
\<close>

definition clean_fields :: "booking \<Rightarrow> bool" where
  "clean_fields self =
     (seat_number self \<noteq> [] \<and> length (seat_number self) \<le> 10 \<and>
      length (booking_reference self) \<le> 20)"

text \<open>
  The key of \<open>unique_together = ['show', 'seat_number', 'status']\<close>.
\<close>

definition unique_key :: "booking \<Rightarrow> nat \<times> string \<times> status" where
  "unique_key r = (show_id (bshow r), seat_number r, status r)"

text \<open>
  \<open>validate_unique\<close>: no other row has the same \<open>booking_reference\<close>
  (\<open>unique=True\<close>) and no other row has the same show, seat number and status
  (\<open>unique_together\<close>). A saved object is not compared with its own row.
\<close>

definition validate_unique :: "bookings \<Rightarrow> booking \<Rightarrow> bool" where
  "validate_unique rows self =
     (let others = (case pk self of None \<Rightarrow> rows | Some i \<Rightarrow> exclude_id (Some i) rows)
      in filter (\<lambda>r. booking_reference r = booking_reference self) others = [] \<and>
         filter (\<lambda>r. unique_key r = unique_key self) others = [])"

definition full_clean :: "bookings \<Rightarrow> booking \<Rightarrow> exn + unit" where
  "full_clean rows self =
     (if clean_fields self \<and> clean rows self = Inr () \<and> validate_unique rows self
      then Inr () else Inl ValidationError)"

text \<open>
  The storage constraints of the table: the declared \<open>unique_together\<close> and the
  unique \<open>booking_reference\<close>. The database checks a written row against the
  other rows of the table.
\<close>

definition unique_together_ok :: "bookings \<Rightarrow> bool" where
  "unique_together_ok rows = distinct (map unique_key rows)"

definition db_conflicts :: "bookings \<Rightarrow> booking \<Rightarrow> bookings" where
  "db_conflicts rows written =
     filter (\<lambda>r. pk r \<noteq> pk written \<and>
                 (unique_key r = unique_key written \<or>
                  booking_reference r = booking_reference written)) rows"

text \<open>The key the database gives a new row: one more than the largest key.\<close>

definition new_pk :: "bookings \<Rightarrow> nat" where
  "new_pk rows = Suc (fold max (map (\<lambda>r. case pk r of None \<Rightarrow> 0 | Some i \<Rightarrow> i) rows) 0)"

text \<open>
  The framework's \<open>Model.save\<close> (\<open>super().save()\<close>): an object without a key is
  inserted under a new key; an object with a key updates its row, and is inserted when
  no row has the key. The database raises \<open>IntegrityError\<close> when the written row
  breaks a constraint. The result is the saved object and the new table.
\<close>

definition Model_save :: "bookings \<Rightarrow> booking \<Rightarrow> exn + (booking \<times> bookings)" where
  "Model_save rows self =
     (case pk self of
        None \<Rightarrow>
          (let saved = self\<lparr>pk := Some (new_pk rows)\<rparr>
           in if db_conflicts rows saved \<noteq> [] then Inl IntegrityError
              else Inr (saved, rows @ [saved]))
      | Some i \<Rightarrow>
          if db_conflicts rows self \<noteq> [] then Inl IntegrityError
          else if filter (\<lambda>r. pk r = Some i) rows = [] then Inr (self, rows @ [self])
          else Inr (self, map (\<lambda>r. if pk r = Some i then self else r) rows))"

text \<open>
  \<open>Booking.save\<close>. \<open>ref\<close> is the value of \<open>str(uuid.uuid4())[:8].upper()\<close>,
  used when the object has no reference yet.
\<close>

definition save :: "string \<Rightarrow> bookings \<Rightarrow> booking \<Rightarrow> exn + (booking \<times> bookings)" where
  "save ref rows self =
     (let self' = (if booking_reference self = [] then self\<lparr>booking_reference := ref\<rparr> else self)
      in case full_clean rows self' of
           Inl e \<Rightarrow> Inl e
         | Inr _ \<Rightarrow> Model_save rows self')"

text \<open>\<open>Booking.cancel\<close>\<close>

definition cancel :: "string \<Rightarrow> bookings \<Rightarrow> booking \<Rightarrow> exn + (booking \<times> bookings)" where
  "cancel ref rows self =
     (if status self = Cancelled then Inl ValidationError
      else save ref rows (self\<lparr>status := Cancelled\<rparr>))"

text \<open>\<open>Booking.can_be_cancelled\<close>\<close>

definition can_be_cancelled :: "int \<Rightarrow> booking \<Rightarrow> bool" where
  "can_be_cancelled now self = (date_time (bshow self) > now \<and> status self = Booked)"

section \<open>movies/services.py\<close>

text \<open>
  \<open>BookingError\<close>, one constructor for each place that raises it. \<open>SeatTaken\<close>
  carries the seat number that its message quotes. The other messages are fixed texts,
  or wrap the text of the exception that was caught, which is not part of the model.
\<close>

datatype booking_error =
    PastShow                  \<comment> \<open>Cannot book seats for past shows.\<close>
  | ShowFull                  \<comment> \<open>This show is fully booked.\<close>
  | SeatTaken string          \<comment> \<open>Seat \{seat_number\} is already booked.\<close>
  | InvalidBookingData        \<comment> \<open>Invalid booking data: ...\<close>
  | FailedToCreate            \<comment> \<open>Failed to create booking: ...\<close>
  | AlreadyCancelled          \<comment> \<open>Booking is already cancelled.\<close>
  | CannotCancelPast          \<comment> \<open>Cannot cancel booking for past shows.\<close>
  | FailedToCancel            \<comment> \<open>Failed to cancel booking: ...\<close>
  | EmptySeat                 \<comment> \<open>Seat number cannot be empty.\<close>
  | InvalidSeatFormat         \<comment> \<open>Invalid seat number format. Use format like A1, B2, etc.\<close>
  | InvalidSeatRow            \<comment> \<open>Invalid seat row. Must be A-Z.\<close>
  | InvalidSeatNumber         \<comment> \<open>Invalid seat number. Must be 1-99.\<close>
  | InvalidSeatNumberFormat   \<comment> \<open>Invalid seat number format.\<close>

text \<open>
  \<open>BookingService.create_booking\<close>. \<open>now\<close> is the value of \<open>timezone.now()\<close>
  and \<open>ref\<close> the reference \<open>Booking.save\<close> draws. The function runs in a
  transaction: when it raises, the table is the one it started from.
\<close>

definition create_booking ::
  "string \<Rightarrow> int \<Rightarrow> bookings \<Rightarrow> nat \<Rightarrow> Show \<Rightarrow> string \<Rightarrow> booking_error + (booking \<times> bookings)"
where
  "create_booking ref now rows usr sh seat =
     (if date_time sh \<le> now then Inl PastShow
      else if is_fully_booked rows sh then Inl ShowFull
      else if booked_seat_rows rows sh (py_upper seat) \<noteq> [] then Inl (SeatTaken seat)
      else
        (let b = \<lparr>pk = None, user = usr, bshow = sh, seat_number = py_upper seat,
                  status = Booked, booking_reference = []\<rparr>
         in case full_clean rows b of
              Inl e \<Rightarrow> Inl InvalidBookingData
            | Inr _ \<Rightarrow>
                (case save ref rows b of
                   Inl ValidationError \<Rightarrow> Inl InvalidBookingData
                 | Inl IntegrityError \<Rightarrow> Inl FailedToCreate
                 | Inr saved \<Rightarrow> Inr saved)))"

text \<open>\<open>BookingService.cancel_booking\<close>\<close>

definition cancel_booking ::
  "string \<Rightarrow> int \<Rightarrow> bookings \<Rightarrow> booking \<Rightarrow> booking_error + (booking \<times> bookings)"
where
  "cancel_booking ref now rows b =
     (if status b = Cancelled then Inl AlreadyCancelled
      else if \<not> can_be_cancelled now b then Inl CannotCancelPast
      else
        (case cancel ref rows b of
           Inl e \<Rightarrow> Inl FailedToCancel
         | Inr saved \<Rightarrow> Inr saved))"

text \<open>
  \<open>BookingService.validate_seat_number\<close>; the optional show is \<open>None\<close> or
  \<open>Some sh\<close>.
\<close>

definition validate_seat_number ::
  "nat \<Rightarrow> bookings \<Rightarrow> string \<Rightarrow> Show option \<Rightarrow> booking_error + string"
where
  "validate_seat_number max_str_digits rows seat show_opt =
     (if seat = [] \<or> py_strip seat = [] then Inl EmptySeat
      else
        (let s = py_upper (py_strip seat) in
         if \<not> (length s \<ge> 2 \<and> isalpha_chr (hd s) \<and> py_isdigit (tl s))
         then Inl InvalidSeatFormat
         else if code_point (hd s) < 65 \<or> code_point (hd s) > 90 then Inl InvalidSeatRow
         else
           (case py_int max_str_digits (tl s) of
              None \<Rightarrow> Inl InvalidSeatNumberFormat
            | Some seat_num \<Rightarrow>
                if seat_num < 1 \<or> seat_num > 99 then Inl InvalidSeatNumber
                else
                  (case show_opt of
                     None \<Rightarrow> Inr s
                   | Some sh \<Rightarrow>
                       if s \<in> set (get_booked_seat_numbers rows sh) then Inl (SeatTaken s)
                       else Inr s))))"

section \<open>movies/serializers.py\<close>

text \<open>
  The checks of the serializers, one constructor for each place that raises;
  \<open>UncaughtValueError\<close> is the \<open>ValueError\<close> of \<open>int\<close>, which
  \<open>BookingCreateSerializer.validate\<close> does not catch, and \<open>FieldInvalid\<close> the
  refusal of the framework's field.
\<close>

datatype serializer_error =
    FieldInvalid | SeatEmptyInvalid | SeatFormatInvalid
  | PastShowInvalid | SeatBookedInvalid | FullyBookedInvalid
  | SeatRowInvalid | SeatNumberInvalid | UncaughtValueError
  | AlreadyCancelledInvalid | CannotCancelInvalid

text \<open>
  The field \<open>seat_number\<close> of \<open>BookingCreateSerializer\<close>, which the framework
  derives from the model's \<open>CharField(max_length=10)\<close>: it trims white space and
  refuses a blank value, a value of more than ten characters and a null character.
\<close>

definition seat_number_field :: "string \<Rightarrow> serializer_error + string" where
  "seat_number_field data =
     (let v = py_strip data
      in if v = [] \<or> 10 < length v \<or> CHR 0x00 \<in> set v then Inl FieldInvalid else Inr v)"

text \<open>\<open>BookingCreateSerializer.validate_seat_number\<close>\<close>

definition BookingCreateSerializer_validate_seat_number :: "string \<Rightarrow> serializer_error + string"
where
  "BookingCreateSerializer_validate_seat_number v =
     (if v = [] \<or> py_strip v = [] then Inl SeatEmptyInvalid
      else if \<not> (length v \<ge> 2 \<and> isalpha_chr (hd v) \<and> py_isdigit (tl v))
      then Inl SeatFormatInvalid
      else Inr (py_upper (py_strip v)))"

text \<open>
  \<open>BookingCreateSerializer.validate\<close>, on the seat number that the field validator
  has returned.
\<close>

definition BookingCreateSerializer_validate ::
  "nat \<Rightarrow> int \<Rightarrow> bookings \<Rightarrow> Show \<Rightarrow> string \<Rightarrow> serializer_error + string"
where
  "BookingCreateSerializer_validate max_str_digits now rows sh seat =
     (if date_time sh \<le> now then Inl PastShowInvalid
      else if booked_seat_rows rows sh seat \<noteq> [] then Inl SeatBookedInvalid
      else if is_fully_booked rows sh then Inl FullyBookedInvalid
      else
        (case py_int max_str_digits (tl seat) of
           None \<Rightarrow> Inl UncaughtValueError
         | Some seat_num \<Rightarrow>
             if code_point (hd seat) < 65 \<or> code_point (hd seat) > 90 then Inl SeatRowInvalid
             else if seat_num < 1 \<or> seat_num > 99 then Inl SeatNumberInvalid
             else Inr seat))"

text \<open>
  \<open>serializer.is_valid()\<close> of the view \<open>book_seat\<close>: the field, then the field's
  validator, then \<open>validate\<close>; the first refusal is the result. \<open>requested_seat\<close>
  is the seat number that reaches \<open>validate\<close>.
\<close>

definition requested_seat :: "string \<Rightarrow> serializer_error + string" where
  "requested_seat data =
     (case seat_number_field data of
        Inl e \<Rightarrow> Inl e
      | Inr v \<Rightarrow> BookingCreateSerializer_validate_seat_number v)"

definition BookingCreateSerializer_is_valid ::
  "nat \<Rightarrow> int \<Rightarrow> bookings \<Rightarrow> Show \<Rightarrow> string \<Rightarrow> serializer_error + string"
where
  "BookingCreateSerializer_is_valid max_str_digits now rows sh data =
     (case requested_seat data of
        Inl e \<Rightarrow> Inl e
      | Inr seat \<Rightarrow> BookingCreateSerializer_validate max_str_digits now rows sh seat)"

text \<open>\<open>BookingCancelSerializer.validate\<close>, on a booking that was found.\<close>

definition BookingCancelSerializer_validate :: "int \<Rightarrow> booking \<Rightarrow> serializer_error + unit" where
  "BookingCancelSerializer_validate now b =
     (if status b = Cancelled then Inl AlreadyCancelledInvalid
      else if \<not> can_be_cancelled now b then Inl CannotCancelInvalid
      else Inr ())"

section \<open>movies/views.py\<close>

text \<open>
  The view \<open>cancel_booking\<close>: the response and the table afterwards.
  \<open>get_object_or_404\<close> reads the booking with the given key.
\<close>

datatype response =
    HTTP_200_OK booking
  | HTTP_400_BAD_REQUEST
  | HTTP_403_FORBIDDEN
  | HTTP_404_NOT_FOUND

definition cancel_booking_view ::
  "string \<Rightarrow> int \<Rightarrow> bookings \<Rightarrow> nat \<Rightarrow> nat \<Rightarrow> response \<times> bookings"
where
  "cancel_booking_view ref now rows booking_id request_user =
     (case find (\<lambda>r. pk r = Some booking_id) rows of
        None \<Rightarrow> (HTTP_404_NOT_FOUND, rows)
      | Some b \<Rightarrow>
          if user b \<noteq> request_user then (HTTP_403_FORBIDDEN, rows)
          else
            (case BookingCancelSerializer_validate now b of
               Inl e \<Rightarrow> (HTTP_400_BAD_REQUEST, rows)
             | Inr _ \<Rightarrow>
                 (case cancel_booking ref now rows b of
                    Inl e \<Rightarrow> (HTTP_400_BAD_REQUEST, rows)
                  | Inr (b', rows') \<Rightarrow> (HTTP_200_OK b', rows'))))"

text \<open>
  The view \<open>book_seat\<close>, for the show that \<open>get_object_or_404\<close> has found and the
  \<open>seat_number\<close> of the request: the response and the table afterwards. The four
  responses are 201 with the booking, 400 with the error of \<open>create_booking\<close>, 400
  with the errors of the serializer, and 500 for an exception that \<open>is_valid\<close> lets
  through.
\<close>

datatype booking_response =
    HTTP_201_CREATED booking
  | HTTP_400_BOOKING_FAILED booking_error
  | HTTP_400_INVALID_DATA serializer_error
  | HTTP_500_SERVER_ERROR

definition book_seat ::
  "string \<Rightarrow> nat \<Rightarrow> int \<Rightarrow> bookings \<Rightarrow> nat \<Rightarrow> Show \<Rightarrow> string \<Rightarrow> booking_response \<times> bookings"
where
  "book_seat ref max_str_digits now rows request_user sh data =
     (case BookingCreateSerializer_is_valid max_str_digits now rows sh data of
        Inl UncaughtValueError \<Rightarrow> (HTTP_500_SERVER_ERROR, rows)
      | Inl e \<Rightarrow> (HTTP_400_INVALID_DATA e, rows)
      | Inr seat \<Rightarrow>
          (case create_booking ref now rows request_user sh seat of
             Inl e \<Rightarrow> (HTTP_400_BOOKING_FAILED e, rows)
           | Inr (b, rows') \<Rightarrow> (HTTP_201_CREATED b, rows')))"

section \<open>Sequences of operations\<close>

text \<open>
  The two operations that write the table, with the values they read from their
  environment. A failed operation leaves the table as it was.
\<close>

datatype op =
    Book string int nat Show string
  | Cancel string int booking

fun op_shows :: "op \<Rightarrow> Show list" where
  "op_shows (Book ref now usr sh seat) = [sh]"
| "op_shows (Cancel ref now b) = []"

fun step :: "bookings \<Rightarrow> op \<Rightarrow> bookings" where
  "step rows (Book ref now usr sh seat) =
     (case create_booking ref now rows usr sh seat of
        Inl e \<Rightarrow> rows
      | Inr (b, rows') \<Rightarrow> rows')"
| "step rows (Cancel ref now b) =
     (case cancel_booking ref now rows b of
        Inl e \<Rightarrow> rows
      | Inr (b', rows') \<Rightarrow> rows')"

definition exec :: "op list \<Rightarrow> bookings" where
  "exec ops = foldl step [] ops"

section \<open>Predicates of the properties\<close>

text \<open>
  The seat format in the words of the specification: one letter A to Z followed by one
  or two digits forming a number from 1 to 99.
\<close>

definition seat_format_spec :: "string \<Rightarrow> bool" where
  "seat_format_spec t =
     (case t of
        [] \<Rightarrow> False
      | c # ds \<Rightarrow>
          isupper_AZ c \<and> (length ds = 1 \<or> length ds = 2) \<and> list_all isdigit_chr ds \<and>
          1 \<le> decimal_value ds \<and> decimal_value ds \<le> 99)"

text \<open>
  The seat format the validators accept: one letter A to Z followed by one or more
  digits, no more than \<open>int\<close> converts, whose value is from 1 to 99.
\<close>

definition seat_format_accepted :: "nat \<Rightarrow> string \<Rightarrow> bool" where
  "seat_format_accepted max_str_digits t =
     (case t of
        [] \<Rightarrow> False
      | c # ds \<Rightarrow>
          isupper_AZ c \<and> ds \<noteq> [] \<and> list_all isdigit_chr ds \<and>
          (max_str_digits = 0 \<or> length ds \<le> max_str_digits) \<and>
          1 \<le> decimal_value ds \<and> decimal_value ds \<le> 99)"

text \<open>The errors \<open>validate_seat_number\<close> raises for the format of a seat number.\<close>

definition is_format_error :: "booking_error \<Rightarrow> bool" where
  "is_format_error e =
     (e = EmptySeat \<or> e = InvalidSeatFormat \<or> e = InvalidSeatRow \<or>
      e = InvalidSeatNumber \<or> e = InvalidSeatNumberFormat)"

text \<open>The (show, seat) pairs of the active rows, in table order.\<close>

definition active_keys :: "bookings \<Rightarrow> (nat \<times> string) list" where
  "active_keys rows =
     map (\<lambda>r. (show_id (bshow r), seat_number r)) (filter (\<lambda>r. status r = Booked) rows)"

definition at_most_one_active :: "bookings \<Rightarrow> bool" where
  "at_most_one_active rows = distinct (active_keys rows)"

text \<open>
  The table of shows: the primary key identifies the row. \<open>ops_on tbl ops\<close> says that
  every show booked by \<open>ops\<close> is a row of \<open>tbl\<close>.
\<close>

definition show_table :: "Show list \<Rightarrow> bool" where
  "show_table tbl = distinct (map show_id tbl)"

definition ops_on :: "Show list \<Rightarrow> op list \<Rightarrow> bool" where
  "ops_on tbl ops = list_all (\<lambda>op. list_all (\<lambda>s. s \<in> set tbl) (op_shows op)) ops"

definition within_capacity :: "bookings \<Rightarrow> Show \<Rightarrow> bool" where
  "within_capacity rows sh = (length (booked_of rows sh) \<le> total_seats sh)"

text \<open>
  Values for the examples: a show of five seats and a show of one seat, both starting at
  time 100; the booking of seat A1 with key and owner \<open>n\<close>; and the history in which
  seat A1 of the larger show is booked, cancelled and booked again by another user.
\<close>

definition show_ex :: Show where
  "show_ex = \<lparr>show_id = 1, date_time = 100, total_seats = 5\<rparr>"

definition small_show :: Show where
  "small_show = \<lparr>show_id = 2, date_time = 100, total_seats = 1\<rparr>"

definition booking_ex :: "nat \<Rightarrow> Show \<Rightarrow> status \<Rightarrow> string \<Rightarrow> booking" where
  "booking_ex n sh st ref =
     \<lparr>pk = Some n, user = n, bshow = sh, seat_number = ''A1'', status = st,
      booking_reference = ref\<rparr>"

definition ops_rebook :: "op list" where
  "ops_rebook =
     [Book ''1A2B3C4D'' 0 1 show_ex ''a1'',
      Cancel ''00000000'' 1 (booking_ex 1 show_ex Booked ''1A2B3C4D''),
      Book ''5E6F7A8B'' 2 2 show_ex ''A1'']"

section \<open>Lemmas\<close>

subsection \<open>What a successful operation has done\<close>

lemma create_booking_InrD:
  assumes "create_booking ref now rows usr sh seat = Inr (b, rows')"
  shows "now < date_time sh" and "\<not> is_fully_booked rows sh"
    and "booked_seat_rows rows sh (py_upper seat) = []"
    and "rows' = rows @ [b]"
    and "b = \<lparr>pk = Some (new_pk rows), user = usr, bshow = sh, seat_number = py_upper seat,
               status = Booked, booking_reference = ref\<rparr>"
  using assms
  by (auto simp: create_booking_def save_def Model_save_def Let_def
      split: if_splits sum.splits exn.splits)

lemma cancel_booking_InrD:
  assumes "cancel_booking ref now rows b = Inr (b', rows')"
  shows "status b = Booked" and "now < date_time (bshow b)" and "status b' = Cancelled"
    and "rows' = rows @ [b'] \<or> rows' = map (\<lambda>r. if pk r = pk b' then b' else r) rows"
    and "bshow b' = bshow b" and "seat_number b' = seat_number b" and "user b' = user b"
  using assms
  by (auto simp: cancel_booking_def cancel_def can_be_cancelled_def save_def Model_save_def Let_def
      split: if_splits sum.splits exn.splits option.splits)

subsection \<open>Active bookings of a seat\<close>

lemma distinct_map_filter_count:
  "distinct (map f (filter P xs)) = (\<forall>k. length (filter (\<lambda>x. f x = k \<and> P x) xs) \<le> 1)"
proof (induction xs)
  case Nil
  then show ?case by simp
next
  case (Cons x xs)
  show ?case
  proof (cases "P x")
    case False
    with Cons show ?thesis by simp
  next
    case True
    have mem: "(f x \<in> f ` {y \<in> set xs. P y}) = (filter (\<lambda>y. f y = f x \<and> P y) xs \<noteq> [])"
      by (auto simp: filter_empty_conv image_iff)
    show ?thesis
    proof
      assume d: "distinct (map f (filter P (x # xs)))"
      with True Cons have all: "\<forall>k. length (filter (\<lambda>x. f x = k \<and> P x) xs) \<le> 1"
        and nomem: "filter (\<lambda>y. f y = f x \<and> P y) xs = []"
        using mem by auto
      show "\<forall>k. length (filter (\<lambda>x. f x = k \<and> P x) (x # xs)) \<le> 1"
      proof
        fix k
        show "length (filter (\<lambda>x. f x = k \<and> P x) (x # xs)) \<le> 1"
          using all nomem True by (cases "f x = k") auto
      qed
    next
      assume a: "\<forall>k. length (filter (\<lambda>x. f x = k \<and> P x) (x # xs)) \<le> 1"
      have "length (filter (\<lambda>y. f y = f x \<and> P y) (x # xs)) \<le> 1" using a by blast
      with True have nomem: "filter (\<lambda>y. f y = f x \<and> P y) xs = []" by simp
      have "\<forall>k. length (filter (\<lambda>x. f x = k \<and> P x) xs) \<le> 1"
      proof
        fix k
        have "length (filter (\<lambda>x. f x = k \<and> P x) (x # xs)) \<le> 1" using a by blast
        then show "length (filter (\<lambda>x. f x = k \<and> P x) xs) \<le> 1"
          by (simp split: if_splits)
      qed
      with Cons have "distinct (map f (filter P xs))" by simp
      with True nomem mem show "distinct (map f (filter P (x # xs)))" by simp
    qed
  qed
qed

lemma at_most_one_active_iff:
  "at_most_one_active rows = (\<forall>sh seat. length (booked_seat_rows rows sh seat) \<le> 1)"
proof -
  have eq: "\<And>sh seat. booked_seat_rows rows sh seat =
      filter (\<lambda>r. (show_id (bshow r), seat_number r) = (show_id sh, seat) \<and> status r = Booked) rows"
    by (simp add: booked_seat_rows_def)
  show ?thesis
  proof
    assume "at_most_one_active rows"
    then show "\<forall>sh seat. length (booked_seat_rows rows sh seat) \<le> 1"
      unfolding at_most_one_active_def active_keys_def distinct_map_filter_count eq by blast
  next
    assume a: "\<forall>sh seat. length (booked_seat_rows rows sh seat) \<le> 1"
    have "\<forall>k. length (filter (\<lambda>r. (show_id (bshow r), seat_number r) = k \<and> status r = Booked) rows) \<le> 1"
    proof
      fix k :: "nat \<times> string"
      obtain i seat where k: "k = (i, seat)" by (cases k)
      have "length (booked_seat_rows rows \<lparr>show_id = i, date_time = 0, total_seats = 0\<rparr> seat) \<le> 1"
        using a by blast
      then show "length (filter (\<lambda>r. (show_id (bshow r), seat_number r) = k \<and> status r = Booked) rows) \<le> 1"
        by (simp add: eq k)
    qed
    then show "at_most_one_active rows"
      unfolding at_most_one_active_def active_keys_def distinct_map_filter_count .
  qed
qed

lemma active_keys_append: "active_keys (xs @ ys) = active_keys xs @ active_keys ys"
  by (simp add: active_keys_def)

lemma filter_map_replace:
  assumes "\<not> P b"
  shows "filter P (map (\<lambda>r. if Q r then b else r) xs) = filter (\<lambda>r. P r \<and> \<not> Q r) xs"
  using assms by (induction xs) auto

lemma distinct_map_filter_conj:
  "distinct (map f (filter P xs)) \<Longrightarrow> distinct (map f (filter (\<lambda>x. P x \<and> R x) xs))"
proof -
  assume "distinct (map f (filter P xs))"
  then have "distinct (map f (filter R (filter P xs)))" by (rule distinct_map_filter)
  then show ?thesis by (simp add: conj_commute)
qed

lemma create_booking_at_most_one_active:
  assumes "at_most_one_active rows" and "create_booking ref now rows usr sh seat = Inr (b, rows')"
  shows "at_most_one_active rows'"
proof -
  note d = create_booking_InrD[OF assms(2)]
  have key: "(show_id sh, py_upper seat) \<notin> set (active_keys rows)"
  proof
    assume "(show_id sh, py_upper seat) \<in> set (active_keys rows)"
    then obtain r where "r \<in> set rows" "status r = Booked" "show_id (bshow r) = show_id sh"
      "seat_number r = py_upper seat"
      by (auto simp: active_keys_def)
    then have "r \<in> set (booked_seat_rows rows sh (py_upper seat))"
      by (simp add: booked_seat_rows_def)
    with d(3) show False by simp
  qed
  have "active_keys rows' = active_keys rows @ [(show_id sh, py_upper seat)]"
    by (simp add: d(4) active_keys_append) (simp add: active_keys_def d(5))
  with assms(1) key show ?thesis by (simp add: at_most_one_active_def)
qed

lemma cancel_booking_at_most_one_active:
  assumes "at_most_one_active rows" and "cancel_booking ref now rows b = Inr (b', rows')"
  shows "at_most_one_active rows'"
proof -
  note d = cancel_booking_InrD[OF assms(2)]
  from d(4) show ?thesis
  proof
    assume "rows' = rows @ [b']"
    then have "active_keys rows' = active_keys rows"
      by (simp add: active_keys_def d(3))
    with assms(1) show ?thesis by (simp add: at_most_one_active_def)
  next
    assume r: "rows' = map (\<lambda>r. if pk r = pk b' then b' else r) rows"
    have "filter (\<lambda>r. status r = Booked) rows' =
        filter (\<lambda>r. status r = Booked \<and> \<not> pk r = pk b') rows"
      unfolding r by (rule filter_map_replace) (simp add: d(3))
    with assms(1) show ?thesis
      by (simp add: at_most_one_active_def active_keys_def distinct_map_filter_conj)
  qed
qed

lemma step_at_most_one_active:
  "at_most_one_active rows \<Longrightarrow> at_most_one_active (step rows op)"
  by (cases op)
    (auto split: sum.splits
      intro: create_booking_at_most_one_active cancel_booking_at_most_one_active)

lemma foldl_step_at_most_one_active:
  "at_most_one_active rows \<Longrightarrow> at_most_one_active (foldl step rows ops)"
  by (induction ops arbitrary: rows) (simp_all add: step_at_most_one_active)

lemma exec_at_most_one_active: "at_most_one_active (exec ops)"
  unfolding exec_def
  by (rule foldl_step_at_most_one_active) (simp add: at_most_one_active_def active_keys_def)

subsection \<open>Capacity\<close>

lemma show_table_same_id:
  "show_table tbl \<Longrightarrow> a \<in> set tbl \<Longrightarrow> b \<in> set tbl \<Longrightarrow> show_id a = show_id b \<Longrightarrow> a = b"
  unfolding show_table_def by (meson distinct_map inj_onD)

lemma booked_of_same_id: "show_id a = show_id b \<Longrightarrow> booked_of rows a = booked_of rows b"
  by (simp add: booked_of_def)

lemma create_booking_within_capacity:
  assumes "within_capacity rows sh"
    and "create_booking ref now rows usr sh' seat = Inr (b, rows')"
    and "show_id sh' = show_id sh \<Longrightarrow> total_seats sh' = total_seats sh"
  shows "within_capacity rows' sh"
proof -
  note d = create_booking_InrD[OF assms(2)]
  show ?thesis
  proof (cases "show_id sh' = show_id sh")
    case True
    from d(2) have "length (booked_of rows sh') < total_seats sh'"
      by (simp add: is_fully_booked_def available_seats_def)
    with True assms(3) have "length (booked_of rows sh) < total_seats sh"
      by (simp add: booked_of_same_id[OF True])
    then show ?thesis
      by (simp add: within_capacity_def d(4) booked_of_def)
  next
    case False
    then have "booked_of rows' sh = booked_of rows sh"
      by (simp add: d(4) booked_of_def) (simp add: d(5))
    with assms(1) show ?thesis by (simp add: within_capacity_def)
  qed
qed

lemma cancel_booking_booked_of:
  assumes "cancel_booking ref now rows b = Inr (b', rows')"
  shows "length (booked_of rows' sh) \<le> length (booked_of rows sh)"
proof -
  note d = cancel_booking_InrD[OF assms]
  from d(4) show ?thesis
  proof
    assume "rows' = rows @ [b']"
    then show ?thesis by (simp add: booked_of_def d(3))
  next
    assume r: "rows' = map (\<lambda>r. if pk r = pk b' then b' else r) rows"
    have "booked_of rows' sh =
        filter (\<lambda>r. (show_id (bshow r) = show_id sh \<and> status r = Booked) \<and> \<not> pk r = pk b') rows"
      unfolding r booked_of_def by (rule filter_map_replace) (simp add: d(3))
    also have "\<dots> = filter (\<lambda>r. \<not> pk r = pk b') (booked_of rows sh)"
      by (simp add: booked_of_def conj_commute)
    finally show ?thesis by simp
  qed
qed

lemma step_within_capacity:
  assumes "within_capacity rows sh" and "show_table tbl" and "sh \<in> set tbl"
    and "list_all (\<lambda>s. s \<in> set tbl) (op_shows op)"
  shows "within_capacity (step rows op) sh"
proof (cases op)
  case (Book ref now usr sh' seat)
  with assms(4) have in_tbl: "sh' \<in> set tbl" by simp
  have same: "show_id sh' = show_id sh \<Longrightarrow> total_seats sh' = total_seats sh"
    using show_table_same_id[OF assms(2) in_tbl assms(3)] by simp
  show ?thesis
    using Book assms(1) same
    by (auto split: sum.splits intro: create_booking_within_capacity)
next
  case (Cancel ref now b)
  show ?thesis
  proof (cases "cancel_booking ref now rows b")
    case (Inl e)
    with Cancel assms(1) show ?thesis by simp
  next
    case (Inr res)
    obtain b' rows' where res: "res = (b', rows')" by (cases res)
    have "length (booked_of rows' sh) \<le> length (booked_of rows sh)"
      using Inr res by (intro cancel_booking_booked_of) simp
    with assms(1) show ?thesis using Cancel Inr res by (simp add: within_capacity_def)
  qed
qed

lemma foldl_step_within_capacity:
  "within_capacity rows sh \<Longrightarrow> show_table tbl \<Longrightarrow> sh \<in> set tbl \<Longrightarrow> ops_on tbl ops \<Longrightarrow>
   within_capacity (foldl step rows ops) sh"
proof (induction ops arbitrary: rows)
  case Nil
  then show ?case by simp
next
  case (Cons op ops)
  from Cons.prems have "within_capacity (step rows op) sh"
    by (intro step_within_capacity[where tbl = tbl]) (simp_all add: ops_on_def)
  with Cons show ?case by (simp add: ops_on_def)
qed

lemma full_show_refused:
  assumes "total_seats sh \<le> length (booked_of rows sh)"
  shows "create_booking ref now rows usr sh seat =
      (if date_time sh \<le> now then Inl PastShow else Inl ShowFull)"
  using assms by (simp add: create_booking_def is_fully_booked_def available_seats_def)

subsection \<open>Validators and normalisation\<close>

lemma past_show_iff:
  "(create_booking ref now rows usr sh seat = Inl PastShow) = (date_time sh \<le> now)"
  by (simp add: create_booking_def Let_def split: sum.splits exn.splits)

lemma format_iff:
  "validate_seat_number_format lim s = seat_format_accepted lim (py_upper (py_strip s))"
proof (cases "s = []")
  case True
  then show ?thesis
    by (simp add: validate_seat_number_format_def seat_format_accepted_def py_strip_def py_upper_def)
next
  case False
  then show ?thesis
    by (auto simp: validate_seat_number_format_def seat_format_accepted_def py_int_def
        py_isdigit_def isupper_AZ_def isalpha_chr_def split: list.splits)
qed

lemma service_format:
  "(case validate_seat_number lim rows s None of
      Inr t \<Rightarrow> validate_seat_number_format lim s \<and> t = py_upper (py_strip s)
    | Inl e \<Rightarrow> \<not> validate_seat_number_format lim s \<and> is_format_error e)"
proof (cases "s = []")
  case True
  then show ?thesis
    by (simp add: validate_seat_number_def validate_seat_number_format_def is_format_error_def)
next
  case False
  show ?thesis
  proof (cases "py_upper (py_strip s)")
    case Nil
    with False show ?thesis
      by (simp add: validate_seat_number_def validate_seat_number_format_def py_upper_def
          is_format_error_def)
  next
    case (Cons c rest)
    with False show ?thesis
      by (auto simp: validate_seat_number_def validate_seat_number_format_def Let_def
          py_upper_def py_isdigit_def py_int_def is_format_error_def
          split: list.splits option.splits)
  qed
qed

lemma upper_chr_idem: "upper_chr (upper_chr c) = upper_chr c"
  by (auto simp: upper_chr_def islower_az_def code_point_def)

subsection \<open>Leading zeros\<close>

lemma decimal_value_zero: "decimal_value (CHR ''0'' # ds) = decimal_value ds"
  by (simp add: decimal_value_def code_point_def)

lemma decimal_value_zeros: "decimal_value (replicate k CHR ''0'' @ ds) = decimal_value ds"
  by (induction k) (simp_all add: decimal_value_zero)

lemma foldl_digits_lower:
  "list_all isdigit_chr ds \<Longrightarrow> 0 \<le> a \<Longrightarrow>
   a * 10 ^ length ds \<le> foldl (\<lambda>a c. 10 * a + (int (code_point c) - 48)) a ds"
proof (induction ds arbitrary: a)
  case Nil
  then show ?case by simp
next
  case (Cons c cs)
  let ?a' = "10 * a + (int (code_point c) - 48)"
  from Cons.prems have d: "0 \<le> int (code_point c) - 48" by (simp add: isdigit_chr_def)
  with Cons.prems have a': "0 \<le> ?a'" by simp
  have "a * 10 ^ length (c # cs) = (10 * a) * 10 ^ length cs" by simp
  also have "\<dots> \<le> ?a' * 10 ^ length cs" using d by (intro mult_right_mono) simp_all
  also have "\<dots> \<le> foldl (\<lambda>a c. 10 * a + (int (code_point c) - 48)) ?a' cs"
    using Cons.IH[OF _ a'] Cons.prems by simp
  finally show ?case by simp
qed

lemma nonzero_digit:
  assumes "isdigit_chr d" and "d \<noteq> CHR ''0''"
  shows "1 \<le> int (code_point d) - 48"
proof -
  have "code_point d \<noteq> 48"
  proof
    assume "code_point d = 48"
    then have "(of_char d :: nat) = of_char CHR ''0''"
      by (simp add: code_point_def)
    then have "d = CHR ''0''" by (simp only: of_char_eq_iff)
    with assms(2) show False by simp
  qed
  with assms(1) show ?thesis
    unfolding isdigit_chr_def by linarith
qed

lemma significant_length:
  assumes "list_all isdigit_chr (d # ds)" and "d \<noteq> CHR ''0''" and "decimal_value (d # ds) \<le> 99"
  shows "length ds \<le> 1"
proof (rule ccontr)
  assume "\<not> length ds \<le> 1"
  then have len: "2 \<le> length ds" by simp
  define x where "x = int (code_point d) - 48"
  have x1: "1 \<le> x" using assms(1,2) nonzero_digit[of d] by (simp add: x_def)
  have "(10::int) ^ 2 \<le> 10 ^ length ds" using len by (intro power_increasing) simp_all
  then have "(100::int) \<le> 1 * 10 ^ length ds" by simp
  also have "\<dots> \<le> x * 10 ^ length ds" using x1 by (intro mult_right_mono) simp_all
  also have "\<dots> \<le> foldl (\<lambda>a c. 10 * a + (int (code_point c) - 48)) x ds"
    using assms(1) x1 by (intro foldl_digits_lower) simp_all
  also have "\<dots> = decimal_value (d # ds)" by (simp add: decimal_value_def x_def)
  finally show False using assms(3) by simp
qed

lemma split_zeros: "\<exists>k sig. ds = replicate k CHR ''0'' @ sig \<and> (sig = [] \<or> hd sig \<noteq> CHR ''0'')"
proof (induction ds)
  case Nil
  then show ?case by simp
next
  case (Cons c cs)
  show ?case
  proof (cases "c = CHR ''0''")
    case True
    from Cons obtain k sig where "cs = replicate k CHR ''0'' @ sig" "sig = [] \<or> hd sig \<noteq> CHR ''0''"
      by blast
    with True have "c # cs = replicate (Suc k) CHR ''0'' @ sig" by simp
    with \<open>sig = [] \<or> hd sig \<noteq> CHR ''0''\<close> show ?thesis by blast
  next
    case False
    then have "c # cs = replicate 0 CHR ''0'' @ (c # cs) \<and> hd (c # cs) \<noteq> CHR ''0''" by simp
    then show ?thesis by blast
  qed
qed

lemma accepted_leading_zeros:
  "seat_format_accepted lim t =
     (\<exists>c k sig. t = c # replicate k CHR ''0'' @ sig \<and> seat_format_spec (c # sig) \<and>
                (lim = 0 \<or> k + length sig \<le> lim))"
proof
  assume acc: "seat_format_accepted lim t"
  then obtain c ds where t: "t = c # ds" and c: "isupper_AZ c" and ne: "ds \<noteq> []"
    and dig: "list_all isdigit_chr ds" and lim: "lim = 0 \<or> length ds \<le> lim"
    and lo: "1 \<le> decimal_value ds" and hi: "decimal_value ds \<le> 99"
    by (auto simp: seat_format_accepted_def split: list.splits)
  obtain k sig where ds: "ds = replicate k CHR ''0'' @ sig" and sig: "sig = [] \<or> hd sig \<noteq> CHR ''0''"
    using split_zeros by blast
  have v: "decimal_value sig = decimal_value ds" by (simp add: ds decimal_value_zeros)
  have "sig \<noteq> []" using lo v by (auto simp: decimal_value_def)
  then obtain d rest where sd: "sig = d # rest" by (cases sig) auto
  with sig have d0: "d \<noteq> CHR ''0''" by simp
  from dig have dsig: "list_all isdigit_chr (d # rest)" by (simp add: ds sd)
  have "length rest \<le> 1" using significant_length[OF dsig d0] hi v sd by simp
  then have "length sig = 1 \<or> length sig = 2" using sd by (cases rest) auto
  then have "seat_format_spec (c # sig)"
    using c dsig lo hi v sd by (simp add: seat_format_spec_def)
  moreover have "lim = 0 \<or> k + length sig \<le> lim" using lim by (simp add: ds)
  ultimately show "\<exists>c k sig. t = c # replicate k CHR ''0'' @ sig \<and> seat_format_spec (c # sig) \<and>
                (lim = 0 \<or> k + length sig \<le> lim)"
    using t ds by blast
next
  assume "\<exists>c k sig. t = c # replicate k CHR ''0'' @ sig \<and> seat_format_spec (c # sig) \<and>
                (lim = 0 \<or> k + length sig \<le> lim)"
  then obtain c k sig where t: "t = c # replicate k CHR ''0'' @ sig"
    and sp: "seat_format_spec (c # sig)" and lim: "lim = 0 \<or> k + length sig \<le> lim"
    by blast
  from sp have "sig \<noteq> []" by (auto simp: seat_format_spec_def)
  moreover have "list_all isdigit_chr (replicate k CHR ''0'' @ sig)"
    using sp by (auto simp: seat_format_spec_def list_all_iff isdigit_chr_def code_point_def)
  ultimately show "seat_format_accepted lim t"
    using sp lim by (simp add: t seat_format_accepted_def seat_format_spec_def decimal_value_zeros)
qed


subsection \<open>Normalisation, the constraint and cancellation\<close>

lemma py_upper_idem: "py_upper (py_upper s) = py_upper s"
  by (simp add: py_upper_def upper_chr_idem)

lemma unique_together_one_active:
  assumes "unique_together_ok rows"
  shows "length (booked_seat_rows rows sh seat) \<le> 1"
proof -
  from assms have "distinct (map unique_key (filter (\<lambda>r. True) rows))"
    by (simp add: unique_together_ok_def)
  then have "length (filter (\<lambda>r. unique_key r = (show_id sh, seat, Booked) \<and> True) rows) \<le> 1"
    unfolding distinct_map_filter_count by blast
  moreover have "booked_seat_rows rows sh seat =
      filter (\<lambda>r. unique_key r = (show_id sh, seat, Booked) \<and> True) rows"
    by (simp add: booked_seat_rows_def unique_key_def)
  ultimately show ?thesis by simp
qed

lemma exec_rebook:
  "exec ops_rebook =
     [booking_ex 1 show_ex Cancelled ''1A2B3C4D'', booking_ex 2 show_ex Booked ''5E6F7A8B'']"
  by code_simp

lemma cancel_twice:
  assumes "cancel_booking ref now rows b = Inr (b', rows')"
  shows "status b' = Cancelled \<and> cancel_booking ref' now' rows' b' = Inl AlreadyCancelled"
  using cancel_booking_InrD(3)[OF assms] by (simp add: cancel_booking_def)

lemma cancel_succeeds:
  assumes "status b = Booked" and "now < date_time (bshow b)" and "pk b = Some i"
    and "find (\<lambda>r. pk r = Some i) rows = Some b"
    and "seat_number b \<noteq> []" and "length (seat_number b) \<le> 10" 
    and "py_strip (seat_number b) \<noteq> []"
    and "booking_reference b \<noteq> []" and "length (booking_reference b) \<le> 20"
    and "filter (\<lambda>r. pk r \<noteq> Some i \<and>
           (unique_key r = (show_id (bshow b), seat_number b, Cancelled) \<or>
            unique_key r = (show_id (bshow b), seat_number b, Booked) \<or>
            booking_reference r = booking_reference b)) rows = []"
  shows "cancel_booking ref now rows b =
     Inr (b\<lparr>status := Cancelled\<rparr>, map (\<lambda>r. if pk r = Some i then b\<lparr>status := Cancelled\<rparr> else r) rows)"
proof -
  from assms(4) have "b \<in> set rows" by (auto simp: find_Some_iff)
  then have ne: "filter (\<lambda>r. pk r = Some i) rows \<noteq> []"
    using assms(3) by (auto simp: filter_empty_conv)
  show ?thesis
    using assms ne
    by (auto simp: cancel_booking_def cancel_def can_be_cancelled_def save_def full_clean_def
        clean_fields_def clean_def validate_unique_def Model_save_def db_conflicts_def
        exclude_id_def booked_seat_rows_def unique_key_def filter_empty_conv Let_def)
qed

lemma create_booking_taken_seat:
  assumes "now < date_time sh" and "booked_seat_rows rows sh (py_upper seat) \<noteq> []"
  shows "create_booking ref now rows usr sh seat =
     (if is_fully_booked rows sh then Inl ShowFull else Inl (SeatTaken seat))"
  using assms by (simp add: create_booking_def)

lemma create_booking_checks_capacity_first:
  "create_booking ''5E6F7A8B'' 0 [booking_ex 1 small_show Booked ''1A2B3C4D''] 2 small_show ''A1''
     = Inl ShowFull"
  by code_simp

section \<open>Properties of booking and cancellation\<close>

subsection \<open>Past shows\<close>

text \<open>
  C8. \<open>create_booking\<close> fails with the past-show error exactly when the start time of
  the show is at or before the current time. That is exactly when
  \<open>is_show_bookable\<close> is false, and a show that starts one unit of time after now
  passes the timing check.
\<close>

theorem past_show_rejection:
  "((create_booking ref now rows usr sh seat = Inl PastShow) = (date_time sh \<le> now)) \<and>
   ((create_booking ref now rows usr sh seat \<noteq> Inl PastShow) = is_show_bookable now (date_time sh)) \<and>
   create_booking ref now rows usr (sh\<lparr>date_time := now + 1\<rparr>) seat \<noteq> Inl PastShow"
proof -
  have "create_booking ref now rows usr (sh\<lparr>date_time := now + 1\<rparr>) seat \<noteq> Inl PastShow"
    by (simp add: past_show_iff)
  then show ?thesis
    by (auto simp: past_show_iff is_show_bookable_def)
qed

subsection \<open>Cancellation by another user\<close>

text \<open>
  C9. When the booking with the requested key belongs to another user than the one who
  asks, the view \<open>cancel_booking\<close> answers 403 and the table of bookings is the one
  it started from: no row has changed, so the status of an active booking is still
  active.
\<close>

theorem cancel_by_other_user_forbidden:
  assumes "find (\<lambda>r. pk r = Some booking_id) rows = Some b" and "user b \<noteq> request_user"
  shows "cancel_booking_view ref now rows booking_id request_user = (HTTP_403_FORBIDDEN, rows)"
  using assms by (simp add: cancel_booking_view_def)

text \<open>User 2 asks to cancel the active booking 1 of user 1.\<close>

theorem cancel_by_other_user_forbidden_witness:
  "find (\<lambda>r. pk r = Some 1) [booking_ex 1 show_ex Booked ''1A2B3C4D''] =
     Some (booking_ex 1 show_ex Booked ''1A2B3C4D'') \<and>
   user (booking_ex 1 show_ex Booked ''1A2B3C4D'') \<noteq> 2 \<and>
   status (booking_ex 1 show_ex Booked ''1A2B3C4D'') = Booked \<and>
   cancel_booking_view ''00000000'' 0 [booking_ex 1 show_ex Booked ''1A2B3C4D''] 1 2 =
     (HTTP_403_FORBIDDEN, [booking_ex 1 show_ex Booked ''1A2B3C4D''])"
proof -
  have f: "find (\<lambda>r. pk r = Some 1) [booking_ex 1 show_ex Booked ''1A2B3C4D''] =
      Some (booking_ex 1 show_ex Booked ''1A2B3C4D'')"
    by (simp add: booking_ex_def)
  have u: "user (booking_ex 1 show_ex Booked ''1A2B3C4D'') \<noteq> 2"
    by (simp add: booking_ex_def)
  have s: "status (booking_ex 1 show_ex Booked ''1A2B3C4D'') = Booked"
    by (simp add: booking_ex_def)
  from cancel_by_other_user_forbidden[OF f u] f u s show ?thesis by blast
qed

subsection \<open>Order of the checks of a booking\<close>



subsection \<open>Seat format\<close>

text \<open>
  C5, as the code has it. The two seat validators agree. They accept a string exactly
  when, trimmed and uppercased, it is one letter A to Z followed by one or more digits
  whose value is from 1 to 99 (and no more digits than \<open>int\<close> converts); that is,
  a seat of the specified form with any number of zeros put after the letter.
  \<open>validate_seat_number\<close> returns the trimmed, uppercased string for an accepted
  seat and raises one of its format errors otherwise. "A1" is accepted; "1A", "AA",
  "A100" and the empty string are refused.
\<close>

theorem seat_format_validation:
  "validate_seat_number_format lim s = seat_format_accepted lim (py_upper (py_strip s)) \<and>
   seat_format_accepted lim t =
     (\<exists>c k sig. t = c # replicate k CHR ''0'' @ sig \<and> seat_format_spec (c # sig) \<and>
                (lim = 0 \<or> k + length sig \<le> lim)) \<and>
   (case validate_seat_number lim rows s None of
      Inr n \<Rightarrow> validate_seat_number_format lim s \<and> n = py_upper (py_strip s)
    | Inl e \<Rightarrow> \<not> validate_seat_number_format lim s \<and> is_format_error e) \<and>
   validate_seat_number_format lim ''A1'' \<and>
   \<not> validate_seat_number_format lim ''1A'' \<and>
   \<not> validate_seat_number_format lim ''AA'' \<and>
   \<not> validate_seat_number_format lim ''A100'' \<and>
   \<not> validate_seat_number_format lim ''''"
proof -
  have a1: "py_upper (py_strip ''A1'') = ''A1''" by code_simp
  have e1: "py_upper (py_strip ''1A'') = ''1A''" by code_simp
  have e2: "py_upper (py_strip ''AA'') = ''AA''" by code_simp
  have e3: "py_upper (py_strip ''A100'') = ''A100''" by code_simp
  have e4: "py_upper (py_strip '''') = ''''" by code_simp
  have "seat_format_accepted lim ''A1''"
    by (cases "lim = 0")
      (simp_all add: seat_format_accepted_def isupper_AZ_def isdigit_chr_def code_point_def
        decimal_value_def)
  moreover have "\<not> seat_format_accepted lim ''1A''"
    by (simp add: seat_format_accepted_def isupper_AZ_def code_point_def)
  moreover have "\<not> seat_format_accepted lim ''AA''"
    by (simp add: seat_format_accepted_def isdigit_chr_def code_point_def)
  moreover have "\<not> seat_format_accepted lim ''A100''"
    by (simp add: seat_format_accepted_def decimal_value_def code_point_def)
  moreover have "\<not> seat_format_accepted lim ''''"
    by (simp add: seat_format_accepted_def)
  ultimately show ?thesis
    using format_iff[where lim = lim] accepted_leading_zeros[where lim = lim and t = t]
      service_format[where lim = lim and rows = rows and s = s] a1 e1 e2 e3 e4
    by simp
qed

text \<open>
  The seat " a07 ": trimmed and uppercased it is "A07", the seat "A7" with one zero
  after the letter.
\<close>

theorem seat_format_validation_witness:
  "py_upper (py_strip '' a07 '') = ''A07'' \<and>
   ''A07'' = CHR ''A'' # replicate 1 CHR ''0'' @ ''7'' \<and>
   seat_format_spec ''A7'' \<and>
   seat_format_accepted 4300 ''A07'' \<and>
   validate_seat_number_format 4300 '' a07 '' \<and>
   validate_seat_number 4300 [] '' a07 '' None = Inr ''A07''"
proof -
  have u: "py_upper (py_strip '' a07 '') = ''A07''" by code_simp
  have r: "''A07'' = CHR ''A'' # replicate 1 CHR ''0'' @ ''7''" by simp
  have sp: "seat_format_spec ''A7''" by code_simp
  have v: "validate_seat_number 4300 [] '' a07 '' None = Inr ''A07''" by code_simp
  have ex: "\<exists>c k sig. ''A07'' = c # replicate k CHR ''0'' @ sig \<and> seat_format_spec (c # sig) \<and>
      ((4300::nat) = 0 \<or> k + length sig \<le> 4300)"
  proof (intro exI conjI)
    show "''A07'' = CHR ''A'' # replicate 1 CHR ''0'' @ ''7''" by (rule r)
    show "seat_format_spec (CHR ''A'' # ''7'')" by (rule sp)
    show "(4300::nat) = 0 \<or> 1 + length ''7'' \<le> 4300" by simp
  qed
  note T = seat_format_validation[where lim = 4300 and s = "'' a07 ''" and t = "''A07''"
      and rows = "[]"]
  from T have c1: "validate_seat_number_format 4300 '' a07 '' =
      seat_format_accepted 4300 (py_upper (py_strip '' a07 ''))"
    by (rule conjunct1)
  from T have c2: "seat_format_accepted 4300 ''A07'' =
     (\<exists>c k sig. ''A07'' = c # replicate k CHR ''0'' @ sig \<and> seat_format_spec (c # sig) \<and>
                ((4300::nat) = 0 \<or> k + length sig \<le> 4300))"
    by (rule conjunct2[THEN conjunct1])
  have acc: "seat_format_accepted 4300 ''A07''" unfolding c2 by (rule ex)
  have val: "validate_seat_number_format 4300 '' a07 ''" unfolding c1 u by (rule acc)
  show ?thesis by (intro conjI u r sp acc val v)
qed

text \<open>
  The seat "A007" has three digits. Both validators accept it, with the digit limit
  at its default and with the limit switched off, and it is not of the specified form.
\<close>

theorem seat_A007_accepted:
  "validate_seat_number_format 4300 ''A007'' \<and>
   validate_seat_number_format 0 ''A007'' \<and>
   validate_seat_number 4300 [] ''A007'' None = Inr ''A007'' \<and>
   \<not> seat_format_spec (py_upper (py_strip ''A007''))"
  by code_simp

subsection \<open>Normalisation of the seat number\<close>

text \<open>
  C10, as the code has it. For ASCII seat strings with the same uppercased form,
  \<open>create_booking\<close> gives the same result, except that the seat-taken error
  quotes the string as it was typed: either the two results are equal, or both are
  the seat-taken error, each with its own string. A success is the same booking and
  table for both strings; the stored seat number is the uppercased string, which
  uppercasing leaves unchanged; and a later request on the same show for a string with
  the same uppercased form, before the show starts, is refused as a conflict (show
  full or seat taken).
\<close>

theorem seat_number_uppercased:
  assumes "is_ascii seat" and "is_ascii seat'" and "py_upper seat = py_upper seat'"
  shows "(create_booking ref now rows usr sh seat = create_booking ref now rows usr sh seat' \<or>
      create_booking ref now rows usr sh seat = Inl (SeatTaken seat) \<and>
      create_booking ref now rows usr sh seat' = Inl (SeatTaken seat')) \<and>
     (create_booking ref now rows usr sh seat = Inr (b, rows') \<longrightarrow>
        create_booking ref now rows usr sh seat' = Inr (b, rows') \<and>
        rows' = rows @ [b] \<and> seat_number b = py_upper seat \<and>
        py_upper (seat_number b) = seat_number b \<and>
        (now' < date_time sh \<longrightarrow>
           create_booking ref' now' rows' usr' sh seat' =
             (if is_fully_booked rows' sh then Inl ShowFull else Inl (SeatTaken seat'))))"
proof -
  have same: "create_booking ref now rows usr sh seat = create_booking ref now rows usr sh seat' \<or>
      create_booking ref now rows usr sh seat = Inl (SeatTaken seat) \<and>
      create_booking ref now rows usr sh seat' = Inl (SeatTaken seat')"
    using assms(3) by (simp add: create_booking_def)
  have after: "create_booking ref now rows usr sh seat' = Inr (b, rows') \<and>
        rows' = rows @ [b] \<and> seat_number b = py_upper seat \<and>
        py_upper (seat_number b) = seat_number b \<and>
        (now' < date_time sh \<longrightarrow>
           create_booking ref' now' rows' usr' sh seat' =
             (if is_fully_booked rows' sh then Inl ShowFull else Inl (SeatTaken seat')))"
    if ok: "create_booking ref now rows usr sh seat = Inr (b, rows')"
  proof -
    note d = create_booking_InrD[OF ok]
    have sb: "seat_number b = py_upper seat" and st: "status b = Booked" and bs: "bshow b = sh"
      by (simp_all add: d(5))
    have other: "create_booking ref now rows usr sh seat' = Inr (b, rows')"
      using same ok by auto
    have "b \<in> set (booked_seat_rows rows' sh (py_upper seat'))"
      using assms(3) by (simp add: booked_seat_rows_def d(4) sb st bs)
    then have taken: "booked_seat_rows rows' sh (py_upper seat') \<noteq> []" by auto
    have "create_booking ref' now' rows' usr' sh seat' =
             (if is_fully_booked rows' sh then Inl ShowFull else Inl (SeatTaken seat'))"
      if "now' < date_time sh"
      using that taken by (simp add: create_booking_def)
    then show ?thesis using d(4) sb other by (simp add: py_upper_idem)
  qed
  from same after show ?thesis by blast
qed

text \<open>
  Seat "a1" is stored as "A1", the same booking that "A1" gives, and "A1" is then
  taken.
\<close>

theorem seat_number_uppercased_witness:
  "is_ascii ''a1'' \<and> is_ascii ''A1'' \<and> py_upper ''a1'' = py_upper ''A1'' \<and>
   create_booking ''1A2B3C4D'' 0 [] 1 show_ex ''a1'' =
     Inr (booking_ex 1 show_ex Booked ''1A2B3C4D'', [booking_ex 1 show_ex Booked ''1A2B3C4D'']) \<and>
   create_booking ''1A2B3C4D'' 0 [] 1 show_ex ''A1'' =
     Inr (booking_ex 1 show_ex Booked ''1A2B3C4D'', [booking_ex 1 show_ex Booked ''1A2B3C4D'']) \<and>
   seat_number (booking_ex 1 show_ex Booked ''1A2B3C4D'') = ''A1'' \<and>
   create_booking ''5E6F7A8B'' 1 [booking_ex 1 show_ex Booked ''1A2B3C4D''] 2 show_ex ''A1'' =
     Inl (SeatTaken ''A1'')"
proof -
  have a: "is_ascii ''a1''" and a': "is_ascii ''A1''" by code_simp+
  have u: "py_upper ''a1'' = py_upper ''A1''" by code_simp
  have c: "create_booking ''1A2B3C4D'' 0 [] 1 show_ex ''a1'' =
     Inr (booking_ex 1 show_ex Booked ''1A2B3C4D'', [booking_ex 1 show_ex Booked ''1A2B3C4D''])"
    by code_simp
  have t: "(1::int) < date_time show_ex" by (simp add: show_ex_def)
  have n: "\<not> is_fully_booked [booking_ex 1 show_ex Booked ''1A2B3C4D''] show_ex" by code_simp
  have s: "seat_number (booking_ex 1 show_ex Booked ''1A2B3C4D'') = ''A1''"
    by (simp add: booking_ex_def)
  note T = seat_number_uppercased[OF a a' u, where ref = "''1A2B3C4D''" and now = 0
      and rows = "[]" and usr = 1 and sh = show_ex
      and b = "booking_ex 1 show_ex Booked ''1A2B3C4D''"
      and rows' = "[booking_ex 1 show_ex Booked ''1A2B3C4D'']"
      and now' = 1 and ref' = "''5E6F7A8B''" and usr' = 2]
  from T[THEN conjunct2, rule_format, OF c]
  have c': "create_booking ''1A2B3C4D'' 0 [] 1 show_ex ''A1'' =
     Inr (booking_ex 1 show_ex Booked ''1A2B3C4D'', [booking_ex 1 show_ex Booked ''1A2B3C4D''])"
    and later: "1 < date_time show_ex \<longrightarrow>
      create_booking ''5E6F7A8B'' 1 [booking_ex 1 show_ex Booked ''1A2B3C4D''] 2 show_ex ''A1'' =
        (if is_fully_booked [booking_ex 1 show_ex Booked ''1A2B3C4D''] show_ex
         then Inl ShowFull else Inl (SeatTaken ''A1''))"
    by blast+
  from later t n
  have l: "create_booking ''5E6F7A8B'' 1 [booking_ex 1 show_ex Booked ''1A2B3C4D''] 2 show_ex ''A1'' =
     Inl (SeatTaken ''A1'')"
    by simp
  show ?thesis by (intro conjI a a' u c c' s l)
qed

text \<open>
  Seat A1 is taken: the requests for "a1" and for "A1", which have the same
  uppercased form, fail with different errors, each quoting its own string.
\<close>

theorem seat_taken_message_quotes_request:
  "is_ascii ''a1'' \<and> is_ascii ''A1'' \<and> py_upper ''a1'' = py_upper ''A1'' \<and>
   create_booking ''5E6F7A8B'' 0 [booking_ex 1 show_ex Booked ''1A2B3C4D''] 2 show_ex ''a1'' =
     Inl (SeatTaken ''a1'') \<and>
   create_booking ''5E6F7A8B'' 0 [booking_ex 1 show_ex Booked ''1A2B3C4D''] 2 show_ex ''A1'' =
     Inl (SeatTaken ''A1'') \<and>
   create_booking ''5E6F7A8B'' 0 [booking_ex 1 show_ex Booked ''1A2B3C4D''] 2 show_ex ''a1'' \<noteq>
   create_booking ''5E6F7A8B'' 0 [booking_ex 1 show_ex Booked ''1A2B3C4D''] 2 show_ex ''A1''"
  by code_simp

subsection \<open>At most one active booking of a seat\<close>

text \<open>
  C1, as the code has it. A seat is the stored seat number, a string. In every table
  reached from the empty one by a sequence of bookings and cancellations, a show and
  a seat number have at most one active booking; and from any table with that
  property, a successful \<open>create_booking\<close> and a successful \<open>cancel_booking\<close>
  give a table with that property. (A failed operation leaves the table as it was.)
\<close>

theorem at_most_one_active_booking:
  "length (booked_seat_rows (exec ops) sh seat) \<le> 1 \<and>
   ((\<forall>sh seat. length (booked_seat_rows rows sh seat) \<le> 1) \<longrightarrow>
      (create_booking ref now rows usr sh' seat' = Inr (b, rows') \<longrightarrow>
         length (booked_seat_rows rows' sh seat) \<le> 1) \<and>
      (cancel_booking ref now rows b0 = Inr (b', rows'') \<longrightarrow>
         length (booked_seat_rows rows'' sh seat) \<le> 1))"
proof -
  have "length (booked_seat_rows (exec ops) sh seat) \<le> 1"
    using exec_at_most_one_active[of ops] by (simp add: at_most_one_active_iff)
  moreover have "length (booked_seat_rows rows' sh seat) \<le> 1"
    if "\<forall>sh seat. length (booked_seat_rows rows sh seat) \<le> 1"
      and "create_booking ref now rows usr sh' seat' = Inr (b, rows')"
  proof -
    from that(1) have "at_most_one_active rows" by (simp add: at_most_one_active_iff)
    then have "at_most_one_active rows'" using that(2) by (rule create_booking_at_most_one_active)
    then show ?thesis by (simp add: at_most_one_active_iff)
  qed
  moreover have "length (booked_seat_rows rows'' sh seat) \<le> 1"
    if "\<forall>sh seat. length (booked_seat_rows rows sh seat) \<le> 1"
      and "cancel_booking ref now rows b0 = Inr (b', rows'')"
  proof -
    from that(1) have "at_most_one_active rows" by (simp add: at_most_one_active_iff)
    then have "at_most_one_active rows''" using that(2) by (rule cancel_booking_at_most_one_active)
    then show ?thesis by (simp add: at_most_one_active_iff)
  qed
  ultimately show ?thesis by blast
qed

text \<open>
  The history of seat A1 of the example, its second booking and its first
  cancellation.
\<close>

theorem at_most_one_active_booking_witness:
  "length (booked_seat_rows (exec ops_rebook) show_ex ''A1'') \<le> 1 \<and>
   create_booking ''5E6F7A8B'' 2 [booking_ex 1 show_ex Cancelled ''1A2B3C4D''] 2 show_ex ''A1'' =
     Inr (booking_ex 2 show_ex Booked ''5E6F7A8B'',
          [booking_ex 1 show_ex Cancelled ''1A2B3C4D'', booking_ex 2 show_ex Booked ''5E6F7A8B'']) \<and>
   length (booked_seat_rows
     [booking_ex 1 show_ex Cancelled ''1A2B3C4D'', booking_ex 2 show_ex Booked ''5E6F7A8B'']
     show_ex ''A1'') \<le> 1 \<and>
   cancel_booking ''00000000'' 1 [booking_ex 1 show_ex Booked ''1A2B3C4D'']
       (booking_ex 1 show_ex Booked ''1A2B3C4D'') =
     Inr (booking_ex 1 show_ex Cancelled ''1A2B3C4D'', [booking_ex 1 show_ex Cancelled ''1A2B3C4D'']) \<and>
   length (booked_seat_rows [booking_ex 1 show_ex Cancelled ''1A2B3C4D''] show_ex ''A1'') \<le> 1"
proof -
  have i1: "\<forall>sh seat. length (booked_seat_rows [booking_ex 1 show_ex Cancelled ''1A2B3C4D''] sh seat) \<le> 1"
    by (simp add: booked_seat_rows_def)
  have i2: "\<forall>sh seat. length (booked_seat_rows [booking_ex 1 show_ex Booked ''1A2B3C4D''] sh seat) \<le> 1"
    by (simp add: booked_seat_rows_def)
  have c: "create_booking ''5E6F7A8B'' 2 [booking_ex 1 show_ex Cancelled ''1A2B3C4D''] 2 show_ex ''A1'' =
     Inr (booking_ex 2 show_ex Booked ''5E6F7A8B'',
          [booking_ex 1 show_ex Cancelled ''1A2B3C4D'', booking_ex 2 show_ex Booked ''5E6F7A8B''])"
    by code_simp
  have k: "cancel_booking ''00000000'' 1 [booking_ex 1 show_ex Booked ''1A2B3C4D'']
       (booking_ex 1 show_ex Booked ''1A2B3C4D'') =
     Inr (booking_ex 1 show_ex Cancelled ''1A2B3C4D'', [booking_ex 1 show_ex Cancelled ''1A2B3C4D''])"
    by code_simp
  from at_most_one_active_booking[where ops = ops_rebook and sh = show_ex and seat = "''A1''"
      and rows = "[booking_ex 1 show_ex Cancelled ''1A2B3C4D'']" and ref = "''5E6F7A8B''"
      and now = 2 and usr = 2 and sh' = show_ex and seat' = "''A1''"
      and b = "booking_ex 2 show_ex Booked ''5E6F7A8B''"
      and rows' = "[booking_ex 1 show_ex Cancelled ''1A2B3C4D'', booking_ex 2 show_ex Booked ''5E6F7A8B'']"]
    i1 c
  have p1: "length (booked_seat_rows (exec ops_rebook) show_ex ''A1'') \<le> 1"
    and p2: "length (booked_seat_rows
     [booking_ex 1 show_ex Cancelled ''1A2B3C4D'', booking_ex 2 show_ex Booked ''5E6F7A8B'']
     show_ex ''A1'') \<le> 1"
    by blast+
  from at_most_one_active_booking[where rows = "[booking_ex 1 show_ex Booked ''1A2B3C4D'']"
      and ref = "''00000000''" and now = 1 and b0 = "booking_ex 1 show_ex Booked ''1A2B3C4D''"
      and b' = "booking_ex 1 show_ex Cancelled ''1A2B3C4D''"
      and rows'' = "[booking_ex 1 show_ex Cancelled ''1A2B3C4D'']"
      and sh = show_ex and seat = "''A1''"]
    i2 k
  have p3: "length (booked_seat_rows [booking_ex 1 show_ex Cancelled ''1A2B3C4D''] show_ex ''A1'') \<le> 1"
    by blast
  from p1 p2 p3 c k show ?thesis by blast
qed

text \<open>
  "A1" and "A01" are two seat numbers of one seat, row A number 1
  (\<open>get_seat_row_and_number\<close>). The requests for both succeed, and the show has
  two active bookings of that seat.
\<close>

theorem two_spellings_of_one_seat:
  "get_seat_row_and_number 4300 ''A1'' = Some (CHR ''A'', 1) \<and>
   get_seat_row_and_number 4300 ''A01'' = Some (CHR ''A'', 1) \<and>
   book_seat ''1A2B3C4D'' 4300 0 [] 1 show_ex ''A1'' =
     (HTTP_201_CREATED (booking_ex 1 show_ex Booked ''1A2B3C4D''),
      [booking_ex 1 show_ex Booked ''1A2B3C4D'']) \<and>
   book_seat ''5E6F7A8B'' 4300 0 [booking_ex 1 show_ex Booked ''1A2B3C4D''] 2 show_ex ''A01'' =
     (HTTP_201_CREATED ((booking_ex 2 show_ex Booked ''5E6F7A8B'')\<lparr>seat_number := ''A01''\<rparr>),
      [booking_ex 1 show_ex Booked ''1A2B3C4D'',
       (booking_ex 2 show_ex Booked ''5E6F7A8B'')\<lparr>seat_number := ''A01''\<rparr>]) \<and>
   exec [Book ''1A2B3C4D'' 0 1 show_ex ''A1'', Book ''5E6F7A8B'' 0 2 show_ex ''A01''] =
     [booking_ex 1 show_ex Booked ''1A2B3C4D'',
      (booking_ex 2 show_ex Booked ''5E6F7A8B'')\<lparr>seat_number := ''A01''\<rparr>] \<and>
   length (booked_of
     (exec [Book ''1A2B3C4D'' 0 1 show_ex ''A1'', Book ''5E6F7A8B'' 0 2 show_ex ''A01''])
     show_ex) = 2"
  by code_simp

subsection \<open>Capacity\<close>

text \<open>
  C7, as the code has it. For a show of the table of shows, the number of active
  bookings in every table reached from the empty one by a sequence of bookings and
  cancellations is at most \<open>total_seats\<close>, so \<open>available_seats\<close> is not
  negative. When the number of active bookings has reached \<open>total_seats\<close>,
  \<open>create_booking\<close> refuses: with the show-full error when the show has not
  started, and with the past-show error of the earlier timing check when it has.
\<close>

theorem capacity_invariant:
  assumes "show_table tbl" and "sh \<in> set tbl" and "ops_on tbl ops"
  shows "length (booked_of (exec ops) sh) \<le> total_seats sh \<and>
     0 \<le> available_seats (exec ops) sh \<and>
     (total_seats sh \<le> length (booked_of rows sh) \<longrightarrow>
        create_booking ref now rows usr sh seat =
          (if date_time sh \<le> now then Inl PastShow else Inl ShowFull))"
proof -
  have "within_capacity (foldl step [] ops) sh"
    using assms by (intro foldl_step_within_capacity[where tbl = tbl])
      (simp_all add: within_capacity_def booked_of_def)
  then have "length (booked_of (exec ops) sh) \<le> total_seats sh"
    by (simp add: exec_def within_capacity_def)
  then show ?thesis
    by (simp add: available_seats_def full_show_refused)
qed

text \<open>
  The show of one seat: the first booking succeeds, the second is refused and the
  count stays at one.
\<close>

theorem capacity_invariant_witness:
  "show_table [show_ex, small_show] \<and> small_show \<in> set [show_ex, small_show] \<and>
   ops_on [show_ex, small_show]
     [Book ''1A2B3C4D'' 0 1 small_show ''A1'', Book ''5E6F7A8B'' 0 2 small_show ''B2''] \<and>
   exec [Book ''1A2B3C4D'' 0 1 small_show ''A1'', Book ''5E6F7A8B'' 0 2 small_show ''B2''] =
     [booking_ex 1 small_show Booked ''1A2B3C4D''] \<and>
   length (booked_of
     (exec [Book ''1A2B3C4D'' 0 1 small_show ''A1'', Book ''5E6F7A8B'' 0 2 small_show ''B2''])
     small_show) \<le> total_seats small_show \<and>
   total_seats small_show \<le> length (booked_of [booking_ex 1 small_show Booked ''1A2B3C4D''] small_show) \<and>
   create_booking ''5E6F7A8B'' 0 [booking_ex 1 small_show Booked ''1A2B3C4D''] 2 small_show ''B2''
     = Inl ShowFull"
proof -
  have t: "show_table [show_ex, small_show]" by code_simp
  have m: "small_show \<in> set [show_ex, small_show]" by simp
  have o: "ops_on [show_ex, small_show]
     [Book ''1A2B3C4D'' 0 1 small_show ''A1'', Book ''5E6F7A8B'' 0 2 small_show ''B2'']"
    by (simp add: ops_on_def)
  have e: "exec [Book ''1A2B3C4D'' 0 1 small_show ''A1'', Book ''5E6F7A8B'' 0 2 small_show ''B2''] =
     [booking_ex 1 small_show Booked ''1A2B3C4D'']"
    by code_simp
  have f: "total_seats small_show \<le> length (booked_of [booking_ex 1 small_show Booked ''1A2B3C4D''] small_show)"
    by code_simp
  have d: "\<not> date_time small_show \<le> 0" by (simp add: small_show_def)
  from capacity_invariant[OF t m o, where rows = "[booking_ex 1 small_show Booked ''1A2B3C4D'']"
      and ref = "''5E6F7A8B''" and now = 0 and usr = 2 and seat = "''B2''"] t m o e f d
  show ?thesis by simp
qed

text \<open>
  The show of one seat is fully booked and has started at time 100: a request at that
  time fails with the past-show error, not with the show-full error.
\<close>

theorem full_past_show_refused_as_past:
  "total_seats small_show \<le> length (booked_of [booking_ex 1 small_show Booked ''1A2B3C4D''] small_show) \<and>
   date_time small_show \<le> 100 \<and>
   create_booking ''5E6F7A8B'' 100 [booking_ex 1 small_show Booked ''1A2B3C4D''] 2 small_show ''B2''
     = Inl PastShow \<and>
   create_booking ''5E6F7A8B'' 100 [booking_ex 1 small_show Booked ''1A2B3C4D''] 2 small_show ''B2''
     \<noteq> Inl ShowFull"
  by code_simp

subsection \<open>The uniqueness constraint\<close>

text \<open>
  C4, as the code has it. A table that satisfies the constraint on show, seat number
  and status has at most one active row for a (show, seat) pair, and a cancelled row
  and an active row of the same pair satisfy it together: booking seat A1, cancelling
  it and booking it again gives such a table.
\<close>

theorem cancelled_and_active_coexist:
  "(\<forall>rows sh seat. unique_together_ok rows \<longrightarrow> length (booked_seat_rows rows sh seat) \<le> 1) \<and>
   exec ops_rebook =
     [booking_ex 1 show_ex Cancelled ''1A2B3C4D'', booking_ex 2 show_ex Booked ''5E6F7A8B''] \<and>
   unique_together_ok (exec ops_rebook) \<and>
   pk (booking_ex 1 show_ex Cancelled ''1A2B3C4D'') \<noteq> pk (booking_ex 2 show_ex Booked ''5E6F7A8B'') \<and>
   show_id (bshow (booking_ex 1 show_ex Cancelled ''1A2B3C4D'')) =
     show_id (bshow (booking_ex 2 show_ex Booked ''5E6F7A8B'')) \<and>
   seat_number (booking_ex 1 show_ex Cancelled ''1A2B3C4D'') =
     seat_number (booking_ex 2 show_ex Booked ''5E6F7A8B'') \<and>
   status (booking_ex 1 show_ex Cancelled ''1A2B3C4D'') = Cancelled \<and>
   status (booking_ex 2 show_ex Booked ''5E6F7A8B'') = Booked"
proof -
  have "unique_together_ok (exec ops_rebook)"
    unfolding exec_rebook by code_simp
  then show ?thesis
    using exec_rebook unique_together_one_active by (simp add: booking_ex_def)
qed

text \<open>
  The table of the example satisfies the constraint and has one active row for seat
  A1.
\<close>

theorem cancelled_and_active_coexist_witness:
  "unique_together_ok [booking_ex 1 show_ex Cancelled ''1A2B3C4D'', booking_ex 2 show_ex Booked ''5E6F7A8B''] \<and>
   length (booked_seat_rows
     [booking_ex 1 show_ex Cancelled ''1A2B3C4D'', booking_ex 2 show_ex Booked ''5E6F7A8B'']
     show_ex ''A1'') \<le> 1"
proof -
  have u: "unique_together_ok
      [booking_ex 1 show_ex Cancelled ''1A2B3C4D'', booking_ex 2 show_ex Booked ''5E6F7A8B'']"
    by code_simp
  from cancelled_and_active_coexist u show ?thesis by blast
qed

text \<open>
  No table that satisfies the constraint has two different cancelled rows of the same
  show and seat. The table with both bookings of the example cancelled breaks it, and
  cancelling the second booking of the example leaves the table as it was.
\<close>

theorem two_cancelled_rows_violate_constraint:
  "\<not> (\<exists>rows b1 b2. unique_together_ok rows \<and> b1 \<in> set rows \<and> b2 \<in> set rows \<and> b1 \<noteq> b2 \<and>
         show_id (bshow b1) = show_id (bshow b2) \<and> seat_number b1 = seat_number b2 \<and>
         status b1 = Cancelled \<and> status b2 = Cancelled) \<and>
   \<not> unique_together_ok
       [booking_ex 1 show_ex Cancelled ''1A2B3C4D'', booking_ex 2 show_ex Cancelled ''5E6F7A8B''] \<and>
   step (exec ops_rebook) (Cancel ''00000000'' 3 (booking_ex 2 show_ex Booked ''5E6F7A8B'')) =
     [booking_ex 1 show_ex Cancelled ''1A2B3C4D'', booking_ex 2 show_ex Booked ''5E6F7A8B'']"
proof -
  have "b1 = b2"
    if "unique_together_ok rows" "b1 \<in> set rows" "b2 \<in> set rows"
      "show_id (bshow b1) = show_id (bshow b2)" "seat_number b1 = seat_number b2"
      "status b1 = Cancelled" "status b2 = Cancelled"
    for rows and b1 b2 :: booking
  proof -
    from that(1) have "inj_on unique_key (set rows)"
      by (simp add: unique_together_ok_def distinct_map)
    moreover have "unique_key b1 = unique_key b2"
      using that by (simp add: unique_key_def)
    ultimately show ?thesis using that(2,3) by (rule inj_onD)
  qed
  then have "\<not> (\<exists>rows b1 b2. unique_together_ok rows \<and> b1 \<in> set rows \<and> b2 \<in> set rows \<and> b1 \<noteq> b2 \<and>
         show_id (bshow b1) = show_id (bshow b2) \<and> seat_number b1 = seat_number b2 \<and>
         status b1 = Cancelled \<and> status b2 = Cancelled)"
    by blast
  moreover have "\<not> unique_together_ok
       [booking_ex 1 show_ex Cancelled ''1A2B3C4D'', booking_ex 2 show_ex Cancelled ''5E6F7A8B'']"
    by code_simp
  moreover have "step (exec ops_rebook) (Cancel ''00000000'' 3 (booking_ex 2 show_ex Booked ''5E6F7A8B'')) =
     [booking_ex 1 show_ex Cancelled ''1A2B3C4D'', booking_ex 2 show_ex Booked ''5E6F7A8B'']"
    by code_simp
  ultimately show ?thesis by blast
qed

subsection \<open>Cancelling a seat that was cancelled before\<close>

text \<open>
  C6, at the input where the code departs from it. After seat A1 has been booked,
  cancelled and booked again, the second booking is active, its show has not started,
  \<open>can_be_cancelled\<close> holds and the serializer accepts the cancellation; but
  \<open>cancel_booking\<close> fails, because the cancelled row of the first booking has the
  same show, seat number and status as the row it would write. (Lemma
  \<open>cancel_succeeds\<close> gives the tables on which a cancellation succeeds, and
  lemma \<open>cancel_twice\<close> the error of a second cancellation.)
\<close>

theorem second_cancellation_of_seat_fails:
  "exec ops_rebook =
     [booking_ex 1 show_ex Cancelled ''1A2B3C4D'', booking_ex 2 show_ex Booked ''5E6F7A8B''] \<and>
   status (booking_ex 2 show_ex Booked ''5E6F7A8B'') = Booked \<and>
   can_be_cancelled 3 (booking_ex 2 show_ex Booked ''5E6F7A8B'') \<and>
   BookingCancelSerializer_validate 3 (booking_ex 2 show_ex Booked ''5E6F7A8B'') = Inr () \<and>
   cancel_booking ''00000000'' 3 (exec ops_rebook) (booking_ex 2 show_ex Booked ''5E6F7A8B'') =
     Inl FailedToCancel \<and>
   cancel_booking_view ''00000000'' 3 (exec ops_rebook) 2 2 =
     (HTTP_400_BAD_REQUEST, exec ops_rebook)"
  by code_simp

end
